theory Spec2Isabelle
  imports Main
begin

section \<open>Python values\<close>

text \<open>
  The handler of \<^verbatim>\<open>src/backend/lambda.py\<close> receives a decoded JSON document as its
  event, reads provider responses that are nested dictionaries and lists, and returns a
  dictionary. All of them are values of one type. A dictionary is an association list
  with string keys, read with \<open>map_of\<close> (the first binding of a key counts). Strings
  are byte strings in UTF-8. Floating-point numbers are left out: the handler only ever
  tests such a value for truth and calls string or dictionary methods on it, where it
  behaves as an integer does.
\<close>

datatype pyval =
    PNone
  | PBool bool
  | PInt int
  | PStr string
  | PList "pyval list"
  | PDict "(string \<times> pyval) list"

text \<open>
  An exception is its class name and the text that \<^verbatim>\<open>str(e)\<close> gives. Only
  subclasses of \<^verbatim>\<open>Exception\<close> are modelled (the clause
  \<^verbatim>\<open>except Exception\<close> catches each of them).
\<close>

datatype exn = Raised string string

fun str_exn :: "exn \<Rightarrow> string" where
  "str_exn (Raised cls msg) = msg"

fun type_name :: "pyval \<Rightarrow> string" where
  "type_name PNone = ''NoneType''"
| "type_name (PBool b) = ''bool''"
| "type_name (PInt i) = ''int''"
| "type_name (PStr s) = ''str''"
| "type_name (PList xs) = ''list''"
| "type_name (PDict kvs) = ''dict''"

text \<open>Truth value testing, as \<^verbatim>\<open>or\<close>, \<^verbatim>\<open>not\<close> and \<^verbatim>\<open>if\<close> apply it.\<close>

fun truthy :: "pyval \<Rightarrow> bool" where
  "truthy PNone = False"
| "truthy (PBool b) = b"
| "truthy (PInt i) = (i \<noteq> 0)"
| "truthy (PStr s) = (s \<noteq> [])"
| "truthy (PList xs) = (xs \<noteq> [])"
| "truthy (PDict kvs) = (kvs \<noteq> [])"

fun isinstance_dict :: "pyval \<Rightarrow> bool" where
  "isinstance_dict (PDict kvs) = True"
| "isinstance_dict v = False"

definition no_attribute :: "pyval \<Rightarrow> string \<Rightarrow> exn" where
  "no_attribute v name =
     Raised ''AttributeError''
       ([CHR 0x27] @ type_name v @ [CHR 0x27] @ '' object has no attribute ''
          @ [CHR 0x27] @ name @ [CHR 0x27])"

text \<open>\<^verbatim>\<open>v.get(k)\<close> and \<^verbatim>\<open>v.get(k, d)\<close>: only a dictionary has the method.\<close>

fun py_get :: "pyval \<Rightarrow> string \<Rightarrow> pyval \<Rightarrow> exn + pyval" where
  "py_get (PDict kvs) k d = Inr (case map_of kvs k of None \<Rightarrow> d | Some v \<Rightarrow> v)"
| "py_get v k d = Inl (no_attribute v ''get'')"

text \<open>\<^verbatim>\<open>v[k]\<close> with a string key, and \<^verbatim>\<open>v[0]\<close>.\<close>

fun subscript_key :: "pyval \<Rightarrow> string \<Rightarrow> exn + pyval" where
  "subscript_key (PDict kvs) k =
     (case map_of kvs k of
        None \<Rightarrow> Inl (Raised ''KeyError'' ([CHR 0x27] @ k @ [CHR 0x27]))
      | Some v \<Rightarrow> Inr v)"
| "subscript_key (PList xs) k =
     Inl (Raised ''TypeError'' ''list indices must be integers or slices, not str'')"
| "subscript_key (PStr s) k =
     Inl (Raised ''TypeError''
            (''string indices must be integers, not '' @ [CHR 0x27] @ ''str'' @ [CHR 0x27]))"
| "subscript_key v k =
     Inl (Raised ''TypeError''
            ([CHR 0x27] @ type_name v @ [CHR 0x27] @ '' object is not subscriptable''))"

fun subscript_0 :: "pyval \<Rightarrow> exn + pyval" where
  "subscript_0 (PList xs) =
     (case xs of
        [] \<Rightarrow> Inl (Raised ''IndexError'' ''list index out of range'')
      | x # _ \<Rightarrow> Inr x)"
| "subscript_0 (PStr s) =
     (case s of
        [] \<Rightarrow> Inl (Raised ''IndexError'' ''string index out of range'')
      | c # _ \<Rightarrow> Inr (PStr [c]))"
| "subscript_0 (PDict kvs) = Inl (Raised ''KeyError'' ''0'')"
| "subscript_0 v =
     Inl (Raised ''TypeError''
            ([CHR 0x27] @ type_name v @ [CHR 0x27] @ '' object is not subscriptable''))"

text \<open>
  \<^verbatim>\<open>str.lower\<close> and \<^verbatim>\<open>str.upper\<close> on the ASCII letters; every other byte is
  kept. The actions the handler compares with are ASCII words, and no character outside
  ASCII has an ASCII letter of these words as its lower case.
\<close>

definition lower_char :: "char \<Rightarrow> char" where
  "lower_char c =
     (let n = (of_char c :: nat) in if 65 \<le> n \<and> n \<le> 90 then char_of (n + 32) else c)"

definition upper_char :: "char \<Rightarrow> char" where
  "upper_char c =
     (let n = (of_char c :: nat) in if 97 \<le> n \<and> n \<le> 122 then char_of (n - 32) else c)"

definition str_lower :: "string \<Rightarrow> string" where
  "str_lower s = map lower_char s"

definition str_upper :: "string \<Rightarrow> string" where
  "str_upper s = map upper_char s"

fun py_lower :: "pyval \<Rightarrow> exn + string" where
  "py_lower (PStr s) = Inr (str_lower s)"
| "py_lower v = Inl (no_attribute v ''lower'')"

fun py_upper :: "pyval \<Rightarrow> exn + string" where
  "py_upper (PStr s) = Inr (str_upper s)"
| "py_upper v = Inl (no_attribute v ''upper'')"

section \<open>Action extraction\<close>

text \<open>
  \<^verbatim>\<open>json.loads\<close> belongs to the Python standard library. Its decoder for strings is
  a parameter \<open>loads\<close> of the model; given anything but a string it raises
  \<^verbatim>\<open>TypeError\<close>.
\<close>

type_synonym decoder = "string \<Rightarrow> exn + pyval"

fun json_loads :: "decoder \<Rightarrow> pyval \<Rightarrow> exn + pyval" where
  "json_loads loads (PStr s) = loads s"
| "json_loads loads v =
     Inl (Raised ''TypeError''
            (''the JSON object must be str, bytes or bytearray, not '' @ type_name v))"

text \<open>\<^verbatim>\<open>d.get(k)\<close> on a value known to be a dictionary; a missing key gives \<^verbatim>\<open>None\<close>.\<close>

definition dict_get :: "(string \<times> pyval) list \<Rightarrow> string \<Rightarrow> pyval" where
  "dict_get kvs k = (case map_of kvs k of None \<Rightarrow> PNone | Some v \<Rightarrow> v)"

text \<open>\<^verbatim>\<open>x or y\<close> on values that are already computed.\<close>

definition py_or :: "pyval \<Rightarrow> pyval \<Rightarrow> pyval" where
  "py_or x y = (if truthy x then x else y)"

text \<open>
  Line 38, for an event that is a dictionary:
  \<^verbatim>\<open>event.get('action') or (event.get('queryStringParameters') or {}).get('action','')\<close>.
  The right operand of the outer \<^verbatim>\<open>or\<close> is evaluated only when the left one is
  false, so only then can its \<^verbatim>\<open>.get\<close> raise.
\<close>

definition action_from_fields :: "(string \<times> pyval) list \<Rightarrow> exn + pyval" where
  "action_from_fields kvs =
     (if truthy (dict_get kvs ''action'') then Inr (dict_get kvs ''action'')
      else py_get (py_or (dict_get kvs ''queryStringParameters'') (PDict []))
             ''action'' (PStr []))"

text \<open>
  Lines 39 to 43: the body is decoded only when no action was found and the body is
  true; whatever the decoding or the \<^verbatim>\<open>.get\<close> on its result raises is dropped by
  the bare \<^verbatim>\<open>except\<close>, and the action stays as it was.
\<close>

definition action_from_body :: "decoder \<Rightarrow> (string \<times> pyval) list \<Rightarrow> pyval \<Rightarrow> pyval" where
  "action_from_body loads kvs action =
     (if \<not> truthy action \<and> truthy (dict_get kvs ''body'') then
        (case json_loads loads (dict_get kvs ''body'') of
           Inl e \<Rightarrow> action
         | Inr j \<Rightarrow>
             (case py_get j ''action'' (PStr []) of
                Inl e \<Rightarrow> action
              | Inr a \<Rightarrow> a))
      else action)"

text \<open>
  Lines 36 to 45. The action starts as the empty string and is looked for only in an
  event that is a dictionary; line 45 puts \<^verbatim>\<open>(action or "")\<close> in lower case.
  \<open>Inl\<close> is an exception that leaves the handler: these lines stand before the
  \<^verbatim>\<open>try\<close> statement. The \<^verbatim>\<open>print\<close> of line 46 writes to the log only and
  is left out.
\<close>

definition extract_action :: "decoder \<Rightarrow> pyval \<Rightarrow> exn + string" where
  "extract_action loads event =
     (case event of
        PDict kvs \<Rightarrow>
          (case action_from_fields kvs of
             Inl e \<Rightarrow> Inl e
           | Inr a \<Rightarrow>
               (let action = action_from_body loads kvs a
                in py_lower (py_or action (PStr []))))
      | _ \<Rightarrow> py_lower (py_or (PStr []) (PStr [])))"

section \<open>The two services\<close>

text \<open>
  The handler talks to the compute service and to the notification service through
  five calls. \<open>WaiterWait\<close> is the wait of the provider library's polling helper,
  with the name of the waiter, the instance identifiers, and the \<^verbatim>\<open>Delay\<close> and
  \<^verbatim>\<open>MaxAttempts\<close> of its \<^verbatim>\<open>WaiterConfig\<close>; the helper itself is the library's.
  \<open>Publish\<close> carries the topic, the message, and the message attributes as triples
  of name, data type and string value.
\<close>

datatype call =
    DescribeInstances "string list"
  | StartInstances "string list"
  | StopInstances "string list"
  | WaiterWait string "string list" nat nat
  | Publish string string "(string \<times> string \<times> string) list"

text \<open>
  The services are a function of the calls made so far, the last element being the call
  that is answered: it returns the response or the exception raised. A handler run
  takes the calls made before it and returns those made up to its end.
\<close>

type_synonym provider = "call list \<Rightarrow> exn + pyval"

definition invoke :: "provider \<Rightarrow> call \<Rightarrow> call list \<Rightarrow> (exn + pyval) \<times> call list" where
  "invoke p c tr = (p (tr @ [c]), tr @ [c])"

fun is_ec2_call :: "call \<Rightarrow> bool" where
  "is_ec2_call (Publish topic message attrs) = False"
| "is_ec2_call c = True"

fun is_sns_call :: "call \<Rightarrow> bool" where
  "is_sns_call (Publish topic message attrs) = True"
| "is_sns_call c = False"

fun is_start_call :: "call \<Rightarrow> bool" where
  "is_start_call (StartInstances ids) = True"
| "is_start_call c = False"

fun is_stop_call :: "call \<Rightarrow> bool" where
  "is_stop_call (StopInstances ids) = True"
| "is_stop_call c = False"

fun is_describe_call :: "call \<Rightarrow> bool" where
  "is_describe_call (DescribeInstances ids) = True"
| "is_describe_call c = False"

section \<open>Configuration and messages\<close>

definition INSTANCE_ID :: string where
  "INSTANCE_ID = ''i-0e068c43430210bff''"

definition SNS_TOPIC_ARN :: string where
  "SNS_TOPIC_ARN = ''arn:aws:sns:ap-south-1:your account id:ec2-state-notify''"

text \<open>The icons of the messages, in UTF-8.\<close>

definition green_circle :: string where
  "green_circle = [CHR 0xF0, CHR 0x9F, CHR 0x9F, CHR 0xA2]"

definition yellow_circle :: string where
  "yellow_circle = [CHR 0xF0, CHR 0x9F, CHR 0x9F, CHR 0xA1]"

definition check_mark :: string where
  "check_mark = [CHR 0xE2, CHR 0x9C, CHR 0x85]"

definition stop_sign :: string where
  "stop_sign = [CHR 0xF0, CHR 0x9F, CHR 0x9B, CHR 0x91]"

definition cross_mark :: string where
  "cross_mark = [CHR 0xE2, CHR 0x9D, CHR 0x8C]"

definition publish_call :: "string \<Rightarrow> call" where
  "publish_call message =
     Publish SNS_TOPIC_ARN message [(''AWS.SNS.SMS.SMSType'', ''String'', ''Transactional'')]"

section \<open>The notification helper\<close>

text \<open>
  \<^verbatim>\<open>publish_sms\<close>, lines 13 to 30. The \<^verbatim>\<open>try\<close> covers the call and the reading
  of \<^verbatim>\<open>response['MessageId']\<close> for the log line; the two \<^verbatim>\<open>print\<close> calls
  write to the log only and are left out.
\<close>

definition publish_sms :: "provider \<Rightarrow> string \<Rightarrow> call list \<Rightarrow> bool \<times> call list" where
  "publish_sms p message tr =
     (case invoke p (publish_call message) tr of
        (Inl e, tr') \<Rightarrow> (False, tr')
      | (Inr response, tr') \<Rightarrow>
          (case subscript_key response ''MessageId'' of
             Inl e \<Rightarrow> (False, tr')
           | Inr message_id \<Rightarrow> (True, tr')))"

section \<open>The handler\<close>

text \<open>\<^verbatim>\<open>resp['Reservations'][0]['Instances'][0]['State']['Name']\<close>, lines 55 and 76.\<close>

definition and_then :: "exn + 'a \<Rightarrow> ('a \<Rightarrow> exn + 'b) \<Rightarrow> exn + 'b" where
  "and_then r f = (case r of Inl e \<Rightarrow> Inl e | Inr x \<Rightarrow> f x)"

definition instance_state_name :: "pyval \<Rightarrow> exn + pyval" where
  "instance_state_name resp =
     and_then (subscript_key resp ''Reservations'') (\<lambda>reservations.
     and_then (subscript_0 reservations) (\<lambda>reservation.
     and_then (subscript_key reservation ''Instances'') (\<lambda>instances.
     and_then (subscript_0 instances) (\<lambda>instance.
     and_then (subscript_key instance ''State'') (\<lambda>state.
     subscript_key state ''Name'')))))"

text \<open>Lines 49 to 51.\<close>

definition test_branch :: "provider \<Rightarrow> call list \<Rightarrow> (exn + pyval) \<times> call list" where
  "test_branch p tr =
     (case publish_sms p (''TEST: EC2 Monitor - Instance '' @ INSTANCE_ID) tr of
        (success, tr1) \<Rightarrow>
          (Inr (PDict [(''result'', PStr ''test''), (''sms_sent'', PBool success)]), tr1))"

text \<open>
  Lines 53 to 65. \<^verbatim>\<open>ec2.get_waiter\<close> builds the waiter object without a call to
  the service; the wait is the call.
\<close>

definition start_branch :: "provider \<Rightarrow> call list \<Rightarrow> (exn + pyval) \<times> call list" where
  "start_branch p tr =
     (case invoke p (DescribeInstances [INSTANCE_ID]) tr of
        (Inl e, tr1) \<Rightarrow> (Inl e, tr1)
      | (Inr status_resp, tr1) \<Rightarrow>
          (case instance_state_name status_resp of
             Inl e \<Rightarrow> (Inl e, tr1)
           | Inr current_state \<Rightarrow>
               if current_state = PStr ''running'' then
                 (case publish_sms p (green_circle @ '' EC2 - ALREADY RUNNING'') tr1 of
                    (sent, tr2) \<Rightarrow> (Inr (PDict [(''result'', PStr ''already_running'')]), tr2))
               else
                 (case publish_sms p (yellow_circle @ '' EC2 - STARTING...'') tr1 of
                    (sent, tr2) \<Rightarrow>
                      (case invoke p (StartInstances [INSTANCE_ID]) tr2 of
                         (Inl e, tr3) \<Rightarrow> (Inl e, tr3)
                       | (Inr started, tr3) \<Rightarrow>
                           (case invoke p
                                   (WaiterWait ''instance_running'' [INSTANCE_ID] 10 12) tr3 of
                              (Inl e, tr4) \<Rightarrow> (Inl e, tr4)
                            | (Inr waited, tr4) \<Rightarrow>
                                (case publish_sms p
                                        (check_mark @ '' EC2 - STARTED SUCCESS'') tr4 of
                                   (sent', tr5) \<Rightarrow>
                                     (Inr (PDict [(''result'', PStr ''started'')]), tr5)))))))"

text \<open>Lines 67 to 73.\<close>

definition stop_branch :: "provider \<Rightarrow> call list \<Rightarrow> (exn + pyval) \<times> call list" where
  "stop_branch p tr =
     (case publish_sms p (yellow_circle @ '' EC2 - STOPPING...'') tr of
        (sent, tr1) \<Rightarrow>
          (case invoke p (StopInstances [INSTANCE_ID]) tr1 of
             (Inl e, tr2) \<Rightarrow> (Inl e, tr2)
           | (Inr stopped, tr2) \<Rightarrow>
               (case invoke p (WaiterWait ''instance_stopped'' [INSTANCE_ID] 10 12) tr2 of
                  (Inl e, tr3) \<Rightarrow> (Inl e, tr3)
                | (Inr waited, tr3) \<Rightarrow>
                    (case publish_sms p (stop_sign @ '' EC2 - STOPPED SUCCESS'') tr3 of
                       (sent', tr4) \<Rightarrow>
                         (Inr (PDict [(''result'', PStr ''stopped'')]), tr4)))))"

text \<open>Lines 75 to 79.\<close>

definition status_branch :: "provider \<Rightarrow> call list \<Rightarrow> (exn + pyval) \<times> call list" where
  "status_branch p tr =
     (case invoke p (DescribeInstances [INSTANCE_ID]) tr of
        (Inl e, tr1) \<Rightarrow> (Inl e, tr1)
      | (Inr resp, tr1) \<Rightarrow>
          (case instance_state_name resp of
             Inl e \<Rightarrow> (Inl e, tr1)
           | Inr state \<Rightarrow>
               (let state_icon = (if state = PStr ''running'' then green_circle else stop_sign)
                in case py_upper state of
                     Inl e \<Rightarrow> (Inl e, tr1)
                   | Inr upper \<Rightarrow>
                       (case publish_sms p (state_icon @ '' EC2 - '' @ upper) tr1 of
                          (sent, tr2) \<Rightarrow>
                            (Inr (PDict [(''result'', PStr ''status''), (''state'', state)]),
                             tr2)))))"

text \<open>The body of the \<^verbatim>\<open>try\<close> statement, lines 49 to 79.\<close>

definition try_body :: "provider \<Rightarrow> string \<Rightarrow> call list \<Rightarrow> (exn + pyval) \<times> call list" where
  "try_body p action tr =
     (if action = ''test'' then test_branch p tr
      else if action = ''start'' then start_branch p tr
      else if action = ''stop'' then stop_branch p tr
      else status_branch p tr)"

text \<open>The \<^verbatim>\<open>except Exception\<close> clause, lines 81 to 84.\<close>

definition except_clause :: "provider \<Rightarrow> exn \<Rightarrow> call list \<Rightarrow> pyval \<times> call list" where
  "except_clause p e tr =
     (let error_msg = cross_mark @ '' EC2 ERROR: '' @ str_exn e
      in case publish_sms p error_msg tr of
           (sent, tr') \<Rightarrow>
             (PDict [(''result'', PStr ''error''), (''error'', PStr error_msg)], tr'))"

text \<open>
  Lines 48 to 84, for an action already extracted and put in lower case: the result
  dictionary and the calls made.
\<close>

definition dispatch :: "provider \<Rightarrow> string \<Rightarrow> call list \<Rightarrow> pyval \<times> call list" where
  "dispatch p action tr =
     (case try_body p action tr of
        (Inr res, tr') \<Rightarrow> (res, tr')
      | (Inl e, tr') \<Rightarrow> except_clause p e tr')"

text \<open>
  \<^verbatim>\<open>lambda_handler\<close>, lines 32 to 84. The context is not used. \<open>Inl\<close> is an
  exception that leaves the handler, \<open>Inr\<close> the dictionary it returns.
\<close>

definition lambda_handler ::
  "decoder \<Rightarrow> provider \<Rightarrow> pyval \<Rightarrow> 'c \<Rightarrow> call list \<Rightarrow> (exn + pyval) \<times> call list" where
  "lambda_handler loads p event context tr =
     (case extract_action loads event of
        Inl e \<Rightarrow> (Inl e, tr)
      | Inr action \<Rightarrow>
          (case dispatch p action tr of (res, tr') \<Rightarrow> (Inr res, tr')))"

section \<open>Sample surroundings\<close>

text \<open>
  Concrete services and a concrete decoder, for running the handler on examples. The
  response of \<^verbatim>\<open>describe_instances\<close> has the shape the handler reads.
\<close>

definition describe_response :: "pyval \<Rightarrow> pyval" where
  "describe_response state =
     PDict [(''Reservations'',
             PList [PDict [(''Instances'',
                            PList [PDict [(''State'', PDict [(''Name'', state)])]])]])]"

text \<open>Every call succeeds; the instance is reported in the given state.\<close>

definition steady_provider :: "pyval \<Rightarrow> provider" where
  "steady_provider state tr =
     (case rev tr of
        [] \<Rightarrow> Inl (Raised ''ValueError'' ''no call'')
      | DescribeInstances ids # before \<Rightarrow> Inr (describe_response state)
      | Publish topic message attrs # before \<Rightarrow> Inr (PDict [(''MessageId'', PStr ''m-1'')])
      | c # before \<Rightarrow> Inr (PDict []))"

text \<open>Every call raises.\<close>

definition down_provider :: provider where
  "down_provider tr = Inl (Raised ''EndpointConnectionError'' ''Could not connect'')"

text \<open>A decoder that knows one document and rejects every other string.\<close>

definition sample_body :: string where
  \<open>sample_body = ''{"action": "START"}''\<close>

definition sample_loads :: decoder where
  "sample_loads s =
     (if s = sample_body then Inr (PDict [(''action'', PStr ''START'')])
      else Inl (Raised ''JSONDecodeError'' ''Expecting value''))"

section \<open>Basic facts\<close>

lemma snd_publish_sms: "snd (publish_sms p m tr) = tr @ [publish_call m]"
  by (simp add: publish_sms_def invoke_def split: sum.splits)

lemma is_ec2_publish_call: "is_ec2_call (publish_call m) = False"
  by (simp add: publish_call_def)

lemma is_sns_publish_call: "is_sns_call (publish_call m) = True"
  by (simp add: publish_call_def)

lemma str_lower_START: "str_lower ''START'' = ''start''"
  by code_simp

lemma str_lower_start: "str_lower ''start'' = ''start''"
  by code_simp

lemma str_lower_STOP: "str_lower ''STOP'' = ''stop''"
  by code_simp

lemma str_lower_Nil: "str_lower [] = []"
  by (simp add: str_lower_def)

lemma state_of_describe_response: "instance_state_name (describe_response st) = Inr st"
  by (simp add: instance_state_name_def and_then_def describe_response_def)

text \<open>Once the action is extracted, the handler returns what \<open>dispatch\<close> computes.\<close>

lemma handler_dispatch:
  "extract_action loads event = Inr a \<Longrightarrow>
   lambda_handler loads p event ctx tr = (Inr (fst (dispatch p a tr)), snd (dispatch p a tr))"
  by (simp add: lambda_handler_def split: prod.splits)

subsection \<open>Runs of the four branches\<close>

lemma run_test:
  "dispatch p ''test'' tr =
     (PDict [(''result'', PStr ''test''),
             (''sms_sent'',
              PBool (fst (publish_sms p (''TEST: EC2 Monitor - Instance '' @ INSTANCE_ID) tr)))],
      tr @ [publish_call (''TEST: EC2 Monitor - Instance '' @ INSTANCE_ID)])"
  by (simp add: dispatch_def try_body_def test_branch_def case_prod_unfold snd_publish_sms)

lemma run_already_running:
  assumes "p (tr @ [DescribeInstances [INSTANCE_ID]]) = Inr resp"
    and "instance_state_name resp = Inr (PStr ''running'')"
  shows "dispatch p ''start'' tr =
      (PDict [(''result'', PStr ''already_running'')],
       tr @ [DescribeInstances [INSTANCE_ID],
             publish_call (green_circle @ '' EC2 - ALREADY RUNNING'')])"
  using assms
  by (simp add: dispatch_def try_body_def start_branch_def invoke_def case_prod_unfold
      snd_publish_sms)

lemma run_start:
  assumes "p (tr @ [DescribeInstances [INSTANCE_ID]]) = Inr resp"
    and "instance_state_name resp = Inr st"
    and "st \<noteq> PStr ''running''"
    and "p (tr @ [DescribeInstances [INSTANCE_ID],
                  publish_call (yellow_circle @ '' EC2 - STARTING...''),
                  StartInstances [INSTANCE_ID]]) = Inr r1"
    and "p (tr @ [DescribeInstances [INSTANCE_ID],
                  publish_call (yellow_circle @ '' EC2 - STARTING...''),
                  StartInstances [INSTANCE_ID],
                  WaiterWait ''instance_running'' [INSTANCE_ID] 10 12]) = Inr r2"
  shows "dispatch p ''start'' tr =
      (PDict [(''result'', PStr ''started'')],
       tr @ [DescribeInstances [INSTANCE_ID],
             publish_call (yellow_circle @ '' EC2 - STARTING...''),
             StartInstances [INSTANCE_ID],
             WaiterWait ''instance_running'' [INSTANCE_ID] 10 12,
             publish_call (check_mark @ '' EC2 - STARTED SUCCESS'')])"
  using assms
  by (simp add: dispatch_def try_body_def start_branch_def invoke_def case_prod_unfold
      snd_publish_sms)

lemma run_stop:
  assumes "p (tr @ [publish_call (yellow_circle @ '' EC2 - STOPPING...''),
                  StopInstances [INSTANCE_ID]]) = Inr r1"
    and "p (tr @ [publish_call (yellow_circle @ '' EC2 - STOPPING...''),
                  StopInstances [INSTANCE_ID],
                  WaiterWait ''instance_stopped'' [INSTANCE_ID] 10 12]) = Inr r2"
  shows "dispatch p ''stop'' tr =
      (PDict [(''result'', PStr ''stopped'')],
       tr @ [publish_call (yellow_circle @ '' EC2 - STOPPING...''),
             StopInstances [INSTANCE_ID],
             WaiterWait ''instance_stopped'' [INSTANCE_ID] 10 12,
             publish_call (stop_sign @ '' EC2 - STOPPED SUCCESS'')])"
  using assms
  by (simp add: dispatch_def try_body_def stop_branch_def invoke_def case_prod_unfold
      snd_publish_sms)

lemma run_status:
  assumes "a \<noteq> ''test''" and "a \<noteq> ''start''" and "a \<noteq> ''stop''"
    and "p (tr @ [DescribeInstances [INSTANCE_ID]]) = Inr resp"
    and "instance_state_name resp = Inr (PStr st)"
  shows "dispatch p a tr =
      (PDict [(''result'', PStr ''status''), (''state'', PStr st)],
       tr @ [DescribeInstances [INSTANCE_ID],
             publish_call ((if st = ''running'' then green_circle else stop_sign)
                           @ '' EC2 - '' @ str_upper st)])"
  using assms
  by (simp add: dispatch_def try_body_def status_branch_def invoke_def case_prod_unfold
      snd_publish_sms)

section \<open>Already running\<close>

text \<open>
  Claim C3. An invocation whose action is \<open>start\<close>, when the compute service reports
  the state \<open>running\<close>, makes two calls only: the query of the state and the
  publication of the already-running message. It issues no start and no stop command,
  and returns the result \<open>already_running\<close>. The publication may succeed or fail.
\<close>

theorem start_when_running:
  assumes "extract_action loads event = Inr ''start''"
    and "p (tr @ [DescribeInstances [INSTANCE_ID]]) = Inr resp"
    and "instance_state_name resp = Inr (PStr ''running'')"
  shows "lambda_handler loads p event ctx tr =
      (Inr (PDict [(''result'', PStr ''already_running'')]),
       tr @ [DescribeInstances [INSTANCE_ID],
             publish_call (green_circle @ '' EC2 - ALREADY RUNNING'')])"
proof -
  have "lambda_handler loads p event ctx tr =
      (Inr (fst (dispatch p ''start'' tr)), snd (dispatch p ''start'' tr))"
    using assms(1) by (rule handler_dispatch)
  moreover have "dispatch p ''start'' tr =
      (PDict [(''result'', PStr ''already_running'')],
       tr @ [DescribeInstances [INSTANCE_ID],
             publish_call (green_circle @ '' EC2 - ALREADY RUNNING'')])"
    using assms(2,3) by (rule run_already_running)
  ultimately show ?thesis by simp
qed

theorem start_when_running_witness:
  "extract_action sample_loads (PDict [(''action'', PStr ''START'')]) = Inr ''start'' \<and>
   lambda_handler sample_loads (steady_provider (PStr ''running''))
       (PDict [(''action'', PStr ''START'')]) () [] =
     (Inr (PDict [(''result'', PStr ''already_running'')]),
      [DescribeInstances [INSTANCE_ID],
       publish_call (green_circle @ '' EC2 - ALREADY RUNNING'')])"
proof -
  have a: "extract_action sample_loads (PDict [(''action'', PStr ''START'')]) = Inr ''start''"
    by (simp add: extract_action_def action_from_fields_def action_from_body_def py_or_def
        dict_get_def str_lower_START)
  have d: "steady_provider (PStr ''running'') ([] @ [DescribeInstances [INSTANCE_ID]]) =
      Inr (describe_response (PStr ''running''))"
    by (simp add: steady_provider_def)
  show ?thesis
    using a d state_of_describe_response [of "PStr ''running''"]
      start_when_running [where loads = sample_loads
        and event = "PDict [(''action'', PStr ''START'')]"
        and p = "steady_provider (PStr ''running'')" and tr = "[]"
        and resp = "describe_response (PStr ''running'')" and ctx = "()"]
    by simp
qed

section \<open>Starting\<close>

text \<open>
  Claim C4. An invocation whose action is \<open>start\<close>, when the reported state is
  anything but \<open>running\<close> and the start command and the wait return, makes five
  calls in this order: the query of the state, the publication of the starting message,
  one start command, the wait of the \<open>instance_running\<close> waiter configured with a
  delay of 10 seconds and at most 12 attempts, and the publication of the success
  message. It returns the result \<open>started\<close>. Neither publication has to succeed.
\<close>

theorem start_when_not_running:
  assumes "extract_action loads event = Inr ''start''"
    and "p (tr @ [DescribeInstances [INSTANCE_ID]]) = Inr resp"
    and "instance_state_name resp = Inr st"
    and "st \<noteq> PStr ''running''"
    and "p (tr @ [DescribeInstances [INSTANCE_ID],
                  publish_call (yellow_circle @ '' EC2 - STARTING...''),
                  StartInstances [INSTANCE_ID]]) = Inr r1"
    and "p (tr @ [DescribeInstances [INSTANCE_ID],
                  publish_call (yellow_circle @ '' EC2 - STARTING...''),
                  StartInstances [INSTANCE_ID],
                  WaiterWait ''instance_running'' [INSTANCE_ID] 10 12]) = Inr r2"
  shows "lambda_handler loads p event ctx tr =
      (Inr (PDict [(''result'', PStr ''started'')]),
       tr @ [DescribeInstances [INSTANCE_ID],
             publish_call (yellow_circle @ '' EC2 - STARTING...''),
             StartInstances [INSTANCE_ID],
             WaiterWait ''instance_running'' [INSTANCE_ID] 10 12,
             publish_call (check_mark @ '' EC2 - STARTED SUCCESS'')])"
proof -
  have "lambda_handler loads p event ctx tr =
      (Inr (fst (dispatch p ''start'' tr)), snd (dispatch p ''start'' tr))"
    using assms(1) by (rule handler_dispatch)
  moreover have "dispatch p ''start'' tr =
      (PDict [(''result'', PStr ''started'')],
       tr @ [DescribeInstances [INSTANCE_ID],
             publish_call (yellow_circle @ '' EC2 - STARTING...''),
             StartInstances [INSTANCE_ID],
             WaiterWait ''instance_running'' [INSTANCE_ID] 10 12,
             publish_call (check_mark @ '' EC2 - STARTED SUCCESS'')])"
    using assms(2-6) by (rule run_start)
  ultimately show ?thesis by simp
qed

theorem start_when_not_running_witness:
  "extract_action sample_loads (PDict [(''action'', PStr ''START'')]) = Inr ''start'' \<and>
   PStr ''stopped'' \<noteq> PStr ''running'' \<and>
   lambda_handler sample_loads (steady_provider (PStr ''stopped''))
       (PDict [(''action'', PStr ''START'')]) () [] =
     (Inr (PDict [(''result'', PStr ''started'')]),
      [DescribeInstances [INSTANCE_ID],
       publish_call (yellow_circle @ '' EC2 - STARTING...''),
       StartInstances [INSTANCE_ID],
       WaiterWait ''instance_running'' [INSTANCE_ID] 10 12,
       publish_call (check_mark @ '' EC2 - STARTED SUCCESS'')])"
proof -
  have a: "extract_action sample_loads (PDict [(''action'', PStr ''START'')]) = Inr ''start''"
    by (simp add: extract_action_def action_from_fields_def action_from_body_def py_or_def
        dict_get_def str_lower_START)
  have d: "steady_provider (PStr ''stopped'') ([] @ [DescribeInstances [INSTANCE_ID]]) =
      Inr (describe_response (PStr ''stopped''))"
    by (simp add: steady_provider_def)
  have s: "steady_provider (PStr ''stopped'')
      ([] @ [DescribeInstances [INSTANCE_ID],
             publish_call (yellow_circle @ '' EC2 - STARTING...''),
             StartInstances [INSTANCE_ID]]) = Inr (PDict [])"
    by (simp add: steady_provider_def)
  have w: "steady_provider (PStr ''stopped'')
      ([] @ [DescribeInstances [INSTANCE_ID],
             publish_call (yellow_circle @ '' EC2 - STARTING...''),
             StartInstances [INSTANCE_ID],
             WaiterWait ''instance_running'' [INSTANCE_ID] 10 12]) = Inr (PDict [])"
    by (simp add: steady_provider_def)
  have n: "PStr ''stopped'' \<noteq> PStr ''running''"
    by simp
  show ?thesis
    using a n
      start_when_not_running [where loads = sample_loads
        and event = "PDict [(''action'', PStr ''START'')]"
        and p = "steady_provider (PStr ''stopped'')" and tr = "[]"
        and resp = "describe_response (PStr ''stopped'')" and st = "PStr ''stopped''"
        and ctx = "()", OF a d state_of_describe_response n s w]
    by simp
qed

section \<open>Stopping\<close>

text \<open>
  Claim C5. An invocation whose action is \<open>stop\<close> never queries the state: whatever
  the services answer, its first two calls are the publication of the stopping message
  and the stop command, and no further stop command and no query of the state follow.
  When the stop command and the wait return, it makes four calls in this order: the
  publication of the stopping message, one stop command, the wait of the
  \<open>instance_stopped\<close> waiter configured with a delay of 10 seconds and at most 12
  attempts, and the publication of the success message; it returns the result
  \<open>stopped\<close>.
\<close>

theorem stop_unconditional:
  assumes "extract_action loads event = Inr ''stop''"
  shows "(\<exists>cs. snd (lambda_handler loads p event ctx tr) =
            tr @ publish_call (yellow_circle @ '' EC2 - STOPPING...'')
                 # StopInstances [INSTANCE_ID] # cs
            \<and> filter is_stop_call cs = [] \<and> filter is_describe_call cs = [])
       \<and> (p (tr @ [publish_call (yellow_circle @ '' EC2 - STOPPING...''),
                    StopInstances [INSTANCE_ID]]) = Inr r1
          \<and> p (tr @ [publish_call (yellow_circle @ '' EC2 - STOPPING...''),
                      StopInstances [INSTANCE_ID],
                      WaiterWait ''instance_stopped'' [INSTANCE_ID] 10 12]) = Inr r2
          \<longrightarrow> lambda_handler loads p event ctx tr =
                (Inr (PDict [(''result'', PStr ''stopped'')]),
                 tr @ [publish_call (yellow_circle @ '' EC2 - STOPPING...''),
                       StopInstances [INSTANCE_ID],
                       WaiterWait ''instance_stopped'' [INSTANCE_ID] 10 12,
                       publish_call (stop_sign @ '' EC2 - STOPPED SUCCESS'')]))"
proof -
  have h: "lambda_handler loads p event ctx tr =
      (Inr (fst (dispatch p ''stop'' tr)), snd (dispatch p ''stop'' tr))"
    using assms by (rule handler_dispatch)
  have "\<exists>cs. snd (dispatch p ''stop'' tr) =
            tr @ publish_call (yellow_circle @ '' EC2 - STOPPING...'')
                 # StopInstances [INSTANCE_ID] # cs
            \<and> filter is_stop_call cs = [] \<and> filter is_describe_call cs = []"
    by (simp add: dispatch_def try_body_def stop_branch_def except_clause_def invoke_def
        case_prod_unfold snd_publish_sms Let_def publish_call_def split: sum.splits)
  then show ?thesis
    using h run_stop [where p = p and tr = tr and ?r1.0 = r1 and ?r2.0 = r2] by simp
qed

theorem stop_unconditional_witness:
  "extract_action sample_loads (PDict [(''action'', PStr ''STOP'')]) = Inr ''stop'' \<and>
   lambda_handler sample_loads (steady_provider (PStr ''running''))
       (PDict [(''action'', PStr ''STOP'')]) () [] =
     (Inr (PDict [(''result'', PStr ''stopped'')]),
      [publish_call (yellow_circle @ '' EC2 - STOPPING...''),
       StopInstances [INSTANCE_ID],
       WaiterWait ''instance_stopped'' [INSTANCE_ID] 10 12,
       publish_call (stop_sign @ '' EC2 - STOPPED SUCCESS'')])"
proof -
  have a: "extract_action sample_loads (PDict [(''action'', PStr ''STOP'')]) = Inr ''stop''"
    by (simp add: extract_action_def action_from_fields_def action_from_body_def py_or_def
        dict_get_def str_lower_STOP)
  have s: "steady_provider (PStr ''running'')
      ([] @ [publish_call (yellow_circle @ '' EC2 - STOPPING...''),
             StopInstances [INSTANCE_ID]]) = Inr (PDict [])"
    by (simp add: steady_provider_def)
  have w: "steady_provider (PStr ''running'')
      ([] @ [publish_call (yellow_circle @ '' EC2 - STOPPING...''),
             StopInstances [INSTANCE_ID],
             WaiterWait ''instance_stopped'' [INSTANCE_ID] 10 12]) = Inr (PDict [])"
    by (simp add: steady_provider_def)
  show ?thesis
    using a s w
      stop_unconditional [where loads = sample_loads
        and event = "PDict [(''action'', PStr ''STOP'')]"
        and p = "steady_provider (PStr ''running'')" and tr = "[]"
        and ?r1.0 = "PDict []" and ?r2.0 = "PDict []" and ctx = "()", OF a]
    by simp
qed

section \<open>The default branch\<close>

lemma icons_differ: "green_circle \<noteq> stop_sign"
  by (simp add: green_circle_def stop_sign_def)

text \<open>
  Claim C7. An invocation whose action, after extraction, is none of \<open>test\<close>,
  \<open>start\<close> and \<open>stop\<close> (the empty action included) queries the state; when the
  query returns a state name that is a string, it publishes one message and returns the
  result \<open>status\<close> with that state. The message starts with the green circle if the
  state is \<open>running\<close> and with the stop sign for any other state, followed by the
  state in upper case; the two icons differ, so the green circle stands there exactly
  when the state is \<open>running\<close>.
\<close>

theorem default_reports_status:
  assumes "extract_action loads event = Inr a"
    and "a \<noteq> ''test''" and "a \<noteq> ''start''" and "a \<noteq> ''stop''"
    and "p (tr @ [DescribeInstances [INSTANCE_ID]]) = Inr resp"
    and "instance_state_name resp = Inr (PStr st)"
  shows "lambda_handler loads p event ctx tr =
      (Inr (PDict [(''result'', PStr ''status''), (''state'', PStr st)]),
       tr @ [DescribeInstances [INSTANCE_ID],
             publish_call ((if st = ''running'' then green_circle else stop_sign)
                           @ '' EC2 - '' @ str_upper st)])
     \<and> ((if st = ''running'' then green_circle else stop_sign) = green_circle)
         = (st = ''running'')"
proof -
  have "lambda_handler loads p event ctx tr =
      (Inr (fst (dispatch p a tr)), snd (dispatch p a tr))"
    using assms(1) by (rule handler_dispatch)
  moreover have "dispatch p a tr =
      (PDict [(''result'', PStr ''status''), (''state'', PStr st)],
       tr @ [DescribeInstances [INSTANCE_ID],
             publish_call ((if st = ''running'' then green_circle else stop_sign)
                           @ '' EC2 - '' @ str_upper st)])"
    using assms(2-6) by (rule run_status)
  ultimately show ?thesis using icons_differ by auto
qed

lemma str_upper_stopped: "str_upper ''stopped'' = ''STOPPED''"
  by code_simp

theorem default_reports_status_witness:
  "extract_action sample_loads (PDict [(''action'', PStr ''status'')]) = Inr ''status'' \<and>
   lambda_handler sample_loads (steady_provider (PStr ''stopped''))
       (PDict [(''action'', PStr ''status'')]) () [] =
     (Inr (PDict [(''result'', PStr ''status''), (''state'', PStr ''stopped'')]),
      [DescribeInstances [INSTANCE_ID], publish_call (stop_sign @ '' EC2 - STOPPED'')])"
proof -
  have a: "extract_action sample_loads (PDict [(''action'', PStr ''status'')]) = Inr ''status''"
    by code_simp
  have d: "steady_provider (PStr ''stopped'') ([] @ [DescribeInstances [INSTANCE_ID]]) =
      Inr (describe_response (PStr ''stopped''))"
    by (simp add: steady_provider_def)
  show ?thesis
    using a d state_of_describe_response [of "PStr ''stopped''"] str_upper_stopped
      default_reports_status [where loads = sample_loads
        and event = "PDict [(''action'', PStr ''status'')]" and a = "''status''"
        and p = "steady_provider (PStr ''stopped'')" and tr = "[]"
        and resp = "describe_response (PStr ''stopped'')" and st = "''stopped''"
        and ctx = "()"]
    by simp
qed

section \<open>Events that are not dictionaries\<close>

lemma extract_non_dict:
  "\<not> isinstance_dict event \<Longrightarrow> extract_action loads event = Inr []"
  by (cases event) (simp_all add: extract_action_def py_or_def str_lower_def)

text \<open>
  Claim C10. For an event that is not a dictionary (a string, a list, a number, a
  truth value, or \<open>None\<close>) the extraction raises nothing and gives the empty action;
  the handler raises nothing either and takes the default branch: when the query returns
  a state name that is a string, the result is \<open>status\<close> with that state.
\<close>

theorem non_dict_event_status:
  assumes "\<not> isinstance_dict event"
    and "p (tr @ [DescribeInstances [INSTANCE_ID]]) = Inr resp"
    and "instance_state_name resp = Inr (PStr st)"
  shows "extract_action loads event = Inr []
     \<and> try_body p [] tr = status_branch p tr
     \<and> lambda_handler loads p event ctx tr =
         (Inr (PDict [(''result'', PStr ''status''), (''state'', PStr st)]),
          tr @ [DescribeInstances [INSTANCE_ID],
                publish_call ((if st = ''running'' then green_circle else stop_sign)
                              @ '' EC2 - '' @ str_upper st)])"
proof -
  have e: "extract_action loads event = Inr []"
    using assms(1) by (rule extract_non_dict)
  have "lambda_handler loads p event ctx tr =
      (Inr (fst (dispatch p [] tr)), snd (dispatch p [] tr))"
    using e by (rule handler_dispatch)
  moreover have "dispatch p [] tr =
      (PDict [(''result'', PStr ''status''), (''state'', PStr st)],
       tr @ [DescribeInstances [INSTANCE_ID],
             publish_call ((if st = ''running'' then green_circle else stop_sign)
                           @ '' EC2 - '' @ str_upper st)])"
    using assms(2,3) by (intro run_status) simp_all
  ultimately show ?thesis using e by (simp add: try_body_def)
qed

theorem non_dict_event_status_witness:
  "\<not> isinstance_dict (PList [PStr ''start'']) \<and>
   extract_action sample_loads (PList [PStr ''start'']) = Inr [] \<and>
   lambda_handler sample_loads (steady_provider (PStr ''stopped''))
       (PList [PStr ''start'']) () [] =
     (Inr (PDict [(''result'', PStr ''status''), (''state'', PStr ''stopped'')]),
      [DescribeInstances [INSTANCE_ID], publish_call (stop_sign @ '' EC2 - STOPPED'')])"
proof -
  have n: "\<not> isinstance_dict (PList [PStr ''start''])"
    by simp
  have d: "steady_provider (PStr ''stopped'') ([] @ [DescribeInstances [INSTANCE_ID]]) =
      Inr (describe_response (PStr ''stopped''))"
    by (simp add: steady_provider_def)
  show ?thesis
    using n d state_of_describe_response [of "PStr ''stopped''"] str_upper_stopped
      non_dict_event_status [where loads = sample_loads
        and event = "PList [PStr ''start'']"
        and p = "steady_provider (PStr ''stopped'')" and tr = "[]"
        and resp = "describe_response (PStr ''stopped'')" and st = "''stopped''"
        and ctx = "()"]
    by simp
qed

section \<open>Where the action is read\<close>

lemma extract_top_level:
  assumes "a \<noteq> []" and "dict_get kvs ''action'' = PStr a"
  shows "extract_action loads (PDict kvs) = Inr (str_lower a)"
  using assms
  by (simp add: extract_action_def action_from_fields_def action_from_body_def py_or_def)

lemma extract_query:
  assumes "a \<noteq> []" and "\<not> truthy (dict_get kvs ''action'')"
    and "dict_get kvs ''queryStringParameters'' = PDict q"
    and "dict_get q ''action'' = PStr a"
  shows "extract_action loads (PDict kvs) = Inr (str_lower a)"
  using assms
  by (auto simp add: extract_action_def action_from_fields_def action_from_body_def py_or_def
      dict_get_def split: option.splits)

lemma extract_body:
  assumes "a \<noteq> []" and "action_from_fields kvs = Inr v" and "\<not> truthy v"
    and "dict_get kvs ''body'' = PStr b" and "b \<noteq> []"
    and "loads b = Inr (PDict j)"
    and "dict_get j ''action'' = PStr a"
  shows "extract_action loads (PDict kvs) = Inr (str_lower a)"
  using assms
  by (auto simp add: extract_action_def action_from_body_def py_or_def
      dict_get_def split: option.splits)

text \<open>
  Claim C2. Let \<open>a\<close> be a non-empty action string. An event that carries \<open>a\<close> in
  its top-level field \<open>action\<close> resolves to \<open>a\<close> in lower case, whatever its other
  fields hold. An event whose top-level action is missing or false and whose
  \<open>queryStringParameters\<close> dictionary carries \<open>a\<close> resolves to the same, whatever
  its body holds. An event whose first two places give no action and whose body is a
  string that decodes to a dictionary carrying \<open>a\<close> resolves to the same. In each
  case the handler returns what the dispatch on the lower-case action returns, so the
  three shapes behave alike and the case of the letters does not matter.
\<close>

theorem action_resolution:
  assumes "a \<noteq> []"
  shows "(dict_get tev ''action'' = PStr a
          \<longrightarrow> extract_action loads (PDict tev) = Inr (str_lower a)
            \<and> lambda_handler loads p (PDict tev) ctx tr =
                 (Inr (fst (dispatch p (str_lower a) tr)), snd (dispatch p (str_lower a) tr)))
       \<and> (\<not> truthy (dict_get qev ''action'')
          \<and> dict_get qev ''queryStringParameters'' = PDict q
          \<and> dict_get q ''action'' = PStr a
          \<longrightarrow> extract_action loads (PDict qev) = Inr (str_lower a)
            \<and> lambda_handler loads p (PDict qev) ctx tr =
                 (Inr (fst (dispatch p (str_lower a) tr)), snd (dispatch p (str_lower a) tr)))
       \<and> (action_from_fields bev = Inr v \<and> \<not> truthy v
          \<and> dict_get bev ''body'' = PStr b \<and> b \<noteq> []
          \<and> loads b = Inr (PDict j) \<and> dict_get j ''action'' = PStr a
          \<longrightarrow> extract_action loads (PDict bev) = Inr (str_lower a)
            \<and> lambda_handler loads p (PDict bev) ctx tr =
                 (Inr (fst (dispatch p (str_lower a) tr)), snd (dispatch p (str_lower a) tr)))
       \<and> str_lower ''START'' = str_lower ''start''"
proof -
  have 1: "extract_action loads (PDict tev) = Inr (str_lower a)"
    if "dict_get tev ''action'' = PStr a"
    using assms that by (rule extract_top_level)
  have 2: "extract_action loads (PDict qev) = Inr (str_lower a)"
    if "\<not> truthy (dict_get qev ''action'')"
      and "dict_get qev ''queryStringParameters'' = PDict q"
      and "dict_get q ''action'' = PStr a"
    using assms that by (rule extract_query)
  have 3: "extract_action loads (PDict bev) = Inr (str_lower a)"
    if "action_from_fields bev = Inr v" and "\<not> truthy v"
      and "dict_get bev ''body'' = PStr b" and "b \<noteq> []"
      and "loads b = Inr (PDict j)" and "dict_get j ''action'' = PStr a"
    using assms that by (rule extract_body)
  show ?thesis
    using 1 2 3 handler_dispatch [where loads = loads and p = p and ctx = ctx and tr = tr
        and a = "str_lower a"]
    by (simp add: str_lower_START str_lower_start)
qed

theorem action_resolution_witness:
  "extract_action sample_loads (PDict [(''action'', PStr ''START'')]) = Inr ''start'' \<and>
   extract_action sample_loads
     (PDict [(''queryStringParameters'', PDict [(''action'', PStr ''START'')])]) = Inr ''start'' \<and>
   extract_action sample_loads (PDict [(''body'', PStr sample_body)]) = Inr ''start''"
proof -
  have n: "''START'' \<noteq> []"
    by simp
  have t: "dict_get [(''action'', PStr ''START'')] ''action'' = PStr ''START''"
    by (simp add: dict_get_def)
  have q: "\<not> truthy (dict_get [(''queryStringParameters'', PDict [(''action'', PStr ''START'')])]
                ''action'')
      \<and> dict_get [(''queryStringParameters'', PDict [(''action'', PStr ''START'')])]
            ''queryStringParameters'' = PDict [(''action'', PStr ''START'')]"
    by (simp add: dict_get_def)
  have b: "action_from_fields [(''body'', PStr sample_body)] = Inr (PStr [])
      \<and> \<not> truthy (PStr [])
      \<and> dict_get [(''body'', PStr sample_body)] ''body'' = PStr sample_body
      \<and> sample_body \<noteq> []
      \<and> sample_loads sample_body = Inr (PDict [(''action'', PStr ''START'')])"
    by (simp add: action_from_fields_def dict_get_def py_or_def sample_loads_def sample_body_def)
  show ?thesis
    using t q b
      action_resolution [OF n, where tev = "[(''action'', PStr ''START'')]"
        and qev = "[(''queryStringParameters'', PDict [(''action'', PStr ''START'')])]"
        and q = "[(''action'', PStr ''START'')]"
        and bev = "[(''body'', PStr sample_body)]" and v = "PStr []" and b = sample_body
        and loads = sample_loads and j = "[(''action'', PStr ''START'')]"
        and p = down_provider and tr = "[]" and ctx = "()"]
    by (simp add: str_lower_START)
qed

section \<open>A body that does not decode\<close>

lemma map_of_without:
  "map_of (filter (\<lambda>kv. fst kv \<noteq> k) kvs) k' = (if k' = k then None else map_of kvs k')"
  by (induction kvs) auto

lemma dict_get_without:
  "dict_get (filter (\<lambda>kv. fst kv \<noteq> k) kvs) k' = (if k' = k then PNone else dict_get kvs k')"
  by (simp add: dict_get_def map_of_without)

lemma extract_malformed_body:
  assumes "dict_get kvs ''body'' = PStr b" and "loads b = Inl e"
  shows "extract_action loads (PDict kvs) =
         extract_action loads (PDict (filter (\<lambda>kv. fst kv \<noteq> ''body'') kvs))"
  using assms
  by (simp add: extract_action_def action_from_fields_def action_from_body_def
      dict_get_without split: sum.splits)

lemma extract_malformed_body_empty:
  assumes "dict_get kvs ''body'' = PStr b" and "loads b = Inl e"
    and "action_from_fields kvs = Inr v" and "\<not> truthy v"
  shows "extract_action loads (PDict kvs) = Inr []"
  using assms
  by (simp add: extract_action_def action_from_body_def py_or_def str_lower_def)

lemma extract_empty_event: "extract_action loads (PDict []) = Inr []"
  by (simp add: extract_action_def action_from_fields_def action_from_body_def py_or_def
      dict_get_def str_lower_def)

text \<open>
  Claim C6. Let the body of an event be a string that the decoder rejects. The failure
  is dropped: the handler does on this event exactly what it does on the event without
  the body (same result or exception, same calls). When moreover the first two places
  give no action, the action is empty, the handler raises nothing, it does exactly what
  it does on the empty event, and the empty action runs the default branch.
\<close>

theorem malformed_body_ignored:
  assumes "dict_get kvs ''body'' = PStr b" and "loads b = Inl e"
  shows "lambda_handler loads p (PDict kvs) ctx tr =
         lambda_handler loads p (PDict (filter (\<lambda>kv. fst kv \<noteq> ''body'') kvs)) ctx tr
       \<and> (action_from_fields kvs = Inr v \<and> \<not> truthy v
          \<longrightarrow> extract_action loads (PDict kvs) = Inr []
            \<and> lambda_handler loads p (PDict kvs) ctx tr = lambda_handler loads p (PDict []) ctx tr
            \<and> lambda_handler loads p (PDict kvs) ctx tr =
                (Inr (fst (dispatch p [] tr)), snd (dispatch p [] tr))
            \<and> try_body p [] tr = status_branch p tr)"
proof -
  have "extract_action loads (PDict kvs) =
      extract_action loads (PDict (filter (\<lambda>kv. fst kv \<noteq> ''body'') kvs))"
    using assms by (rule extract_malformed_body)
  then have 1: "lambda_handler loads p (PDict kvs) ctx tr =
      lambda_handler loads p (PDict (filter (\<lambda>kv. fst kv \<noteq> ''body'') kvs)) ctx tr"
    by (simp add: lambda_handler_def)
  have 2: "extract_action loads (PDict kvs) = Inr []"
    if "action_from_fields kvs = Inr v" and "\<not> truthy v"
    using assms that by (rule extract_malformed_body_empty)
  have 3: "lambda_handler loads p (PDict kvs) ctx tr = lambda_handler loads p (PDict []) ctx tr"
    if "action_from_fields kvs = Inr v" and "\<not> truthy v"
    using 2 [OF that] extract_empty_event [of loads] by (simp add: lambda_handler_def)
  have 4: "lambda_handler loads p (PDict kvs) ctx tr =
      (Inr (fst (dispatch p [] tr)), snd (dispatch p [] tr))"
    if "action_from_fields kvs = Inr v" and "\<not> truthy v"
    using 2 [OF that] by (rule handler_dispatch)
  have 5: "try_body p [] tr = status_branch p tr"
    by (simp add: try_body_def)
  show ?thesis
    using 1 2 3 4 5 by blast
qed

theorem malformed_body_ignored_witness:
  "sample_loads ''{'' = Inl (Raised ''JSONDecodeError'' ''Expecting value'') \<and>
   extract_action sample_loads (PDict [(''body'', PStr ''{'')]) = Inr [] \<and>
   lambda_handler sample_loads (steady_provider (PStr ''stopped''))
       (PDict [(''body'', PStr ''{'')]) () [] =
   lambda_handler sample_loads (steady_provider (PStr ''stopped'')) (PDict []) () []"
proof -
  have b: "dict_get [(''body'', PStr ''{'')] ''body'' = PStr ''{''"
    by (simp add: dict_get_def)
  have l: "sample_loads ''{'' = Inl (Raised ''JSONDecodeError'' ''Expecting value'')"
    by (simp add: sample_loads_def sample_body_def)
  have f: "action_from_fields [(''body'', PStr ''{'')] = Inr (PStr []) \<and> \<not> truthy (PStr [])"
    by (simp add: action_from_fields_def dict_get_def py_or_def)
  show ?thesis
    using b l f
      malformed_body_ignored [where kvs = "[(''body'', PStr ''{'')]" and b = "''{''"
        and loads = sample_loads and e = "Raised ''JSONDecodeError'' ''Expecting value''"
        and v = "PStr []"
        and p = "steady_provider (PStr ''stopped'')" and tr = "[]" and ctx = "()"]
    by simp
qed

section \<open>The notification helper and the test action\<close>

text \<open>
  Claim C8. The helper makes one publish call and returns a truth value, never an
  exception. The value is true exactly when the call returns a response that carries a
  \<open>MessageId\<close>, as every response of the notification service to a successful
  publication does; it is false whenever the call raises. An invocation whose action is
  \<open>test\<close> makes that one call with the fixed test message and returns the result
  \<open>test\<close> with the helper's value as \<open>sms_sent\<close>.
\<close>

theorem publish_sms_contract:
  "fst (publish_sms p m tr) =
     (\<exists>resp mid. p (tr @ [publish_call m]) = Inr resp
        \<and> subscript_key resp ''MessageId'' = Inr mid)
   \<and> snd (publish_sms p m tr) = tr @ [publish_call m]
   \<and> (p' (tr' @ [publish_call m']) = Inl e \<longrightarrow>
        publish_sms p' m' tr' = (False, tr' @ [publish_call m']))
   \<and> (extract_action loads event = Inr ''test'' \<longrightarrow>
        lambda_handler loads p event ctx tr =
          (Inr (PDict [(''result'', PStr ''test''),
                       (''sms_sent'',
                        PBool (fst (publish_sms p
                                      (''TEST: EC2 Monitor - Instance '' @ INSTANCE_ID) tr)))]),
           tr @ [publish_call (''TEST: EC2 Monitor - Instance '' @ INSTANCE_ID)]))"
proof -
  have 1: "fst (publish_sms p m tr) =
     (\<exists>resp mid. p (tr @ [publish_call m]) = Inr resp
        \<and> subscript_key resp ''MessageId'' = Inr mid)"
    by (auto simp add: publish_sms_def invoke_def split: sum.splits)
  have 2: "publish_sms p' m' tr' = (False, tr' @ [publish_call m'])"
    if "p' (tr' @ [publish_call m']) = Inl e"
    using that by (simp add: publish_sms_def invoke_def)
  have 3: "lambda_handler loads p event ctx tr =
          (Inr (PDict [(''result'', PStr ''test''),
                       (''sms_sent'',
                        PBool (fst (publish_sms p
                                      (''TEST: EC2 Monitor - Instance '' @ INSTANCE_ID) tr)))]),
           tr @ [publish_call (''TEST: EC2 Monitor - Instance '' @ INSTANCE_ID)])"
    if "extract_action loads event = Inr ''test''"
    using handler_dispatch [OF that, of p ctx tr] run_test [of p tr] by simp
  show ?thesis
    using 1 2 3 snd_publish_sms [of p m tr] by blast
qed

lemma str_lower_test: "str_lower ''test'' = ''test''"
  by code_simp

theorem publish_sms_contract_witness:
  "publish_sms down_provider ''hello'' [] = (False, [publish_call ''hello'']) \<and>
   lambda_handler sample_loads (steady_provider (PStr ''stopped''))
       (PDict [(''action'', PStr ''test'')]) () [] =
     (Inr (PDict [(''result'', PStr ''test''), (''sms_sent'', PBool True)]),
      [publish_call (''TEST: EC2 Monitor - Instance '' @ INSTANCE_ID)])"
proof -
  have a: "extract_action sample_loads (PDict [(''action'', PStr ''test'')]) = Inr ''test''"
    by (simp add: extract_action_def action_from_fields_def action_from_body_def py_or_def
        dict_get_def str_lower_test)
  have d: "down_provider ([] @ [publish_call ''hello'']) =
      Inl (Raised ''EndpointConnectionError'' ''Could not connect'')"
    by (simp add: down_provider_def)
  have s: "steady_provider (PStr ''stopped'')
      ([] @ [publish_call (''TEST: EC2 Monitor - Instance '' @ INSTANCE_ID)]) =
      Inr (PDict [(''MessageId'', PStr ''m-1'')])"
    by (simp add: steady_provider_def publish_call_def)
  have k: "subscript_key (PDict [(''MessageId'', PStr ''m-1'')]) ''MessageId'' = Inr (PStr ''m-1'')"
    by simp
  show ?thesis
    using a d s k
      publish_sms_contract [where p = "steady_provider (PStr ''stopped'')"
        and m = "''TEST: EC2 Monitor - Instance '' @ INSTANCE_ID" and tr = "[]"
        and p' = down_provider and m' = "''hello''" and tr' = "[]"
        and e = "Raised ''EndpointConnectionError'' ''Could not connect''"
        and loads = sample_loads and event = "PDict [(''action'', PStr ''test'')]"
        and ctx = "()"]
    by auto
qed

section \<open>How many calls an invocation makes\<close>

lemma test_branch_calls:
  "\<exists>cs. snd (test_branch p tr) = tr @ cs \<and> length (filter is_ec2_call cs) \<le> 3
      \<and> length (filter is_sns_call cs) \<le> (if isl (fst (test_branch p tr)) then 1 else 2)"
  by (simp add: test_branch_def case_prod_unfold snd_publish_sms is_ec2_publish_call
      is_sns_publish_call)

lemma start_branch_calls:
  "\<exists>cs. snd (start_branch p tr) = tr @ cs \<and> length (filter is_ec2_call cs) \<le> 3
      \<and> length (filter is_sns_call cs) \<le> (if isl (fst (start_branch p tr)) then 1 else 2)"
  by (simp add: start_branch_def invoke_def case_prod_unfold snd_publish_sms
      is_ec2_publish_call is_sns_publish_call split: sum.splits)

lemma stop_branch_calls:
  "\<exists>cs. snd (stop_branch p tr) = tr @ cs \<and> length (filter is_ec2_call cs) \<le> 3
      \<and> length (filter is_sns_call cs) \<le> (if isl (fst (stop_branch p tr)) then 1 else 2)"
  by (simp add: stop_branch_def invoke_def case_prod_unfold snd_publish_sms
      is_ec2_publish_call is_sns_publish_call split: sum.splits)

lemma status_branch_calls:
  "\<exists>cs. snd (status_branch p tr) = tr @ cs \<and> length (filter is_ec2_call cs) \<le> 3
      \<and> length (filter is_sns_call cs) \<le> (if isl (fst (status_branch p tr)) then 1 else 2)"
  by (simp add: status_branch_def invoke_def case_prod_unfold snd_publish_sms Let_def
      is_ec2_publish_call is_sns_publish_call split: sum.splits)

lemma try_body_calls:
  "\<exists>cs. snd (try_body p a tr) = tr @ cs \<and> length (filter is_ec2_call cs) \<le> 3
      \<and> length (filter is_sns_call cs) \<le> (if isl (fst (try_body p a tr)) then 1 else 2)"
proof -
  have "try_body p a tr = test_branch p tr \<or> try_body p a tr = start_branch p tr
      \<or> try_body p a tr = stop_branch p tr \<or> try_body p a tr = status_branch p tr"
    by (simp add: try_body_def)
  then show ?thesis
    using test_branch_calls [of p tr] start_branch_calls [of p tr] stop_branch_calls [of p tr]
      status_branch_calls [of p tr]
    by (elim disjE) (simp_all only:)
qed

lemma dispatch_calls:
  "\<exists>cs. snd (dispatch p a tr) = tr @ cs \<and> length (filter is_ec2_call cs) \<le> 3
      \<and> length (filter is_sns_call cs) \<le> 2"
proof -
  obtain cs where cs: "snd (try_body p a tr) = tr @ cs" "length (filter is_ec2_call cs) \<le> 3"
    "length (filter is_sns_call cs) \<le> (if isl (fst (try_body p a tr)) then 1 else 2)"
    using try_body_calls [of p a tr] by blast
  show ?thesis
  proof (cases "fst (try_body p a tr)")
    case (Inl e)
    then have "snd (dispatch p a tr) =
        tr @ (cs @ [publish_call (cross_mark @ '' EC2 ERROR: '' @ str_exn e)])"
      using cs(1)
      by (simp add: dispatch_def except_clause_def case_prod_unfold snd_publish_sms Let_def)
    moreover have "length (filter is_sns_call cs) \<le> 1"
      using cs(3) Inl by simp
    ultimately show ?thesis
      using cs(2)
      by (intro exI [of _ "cs @ [publish_call (cross_mark @ '' EC2 ERROR: '' @ str_exn e)]"])
         (simp add: is_ec2_publish_call is_sns_publish_call)
  next
    case (Inr res)
    then have "snd (dispatch p a tr) = tr @ cs"
      using cs(1) by (simp add: dispatch_def case_prod_unfold)
    then show ?thesis
      using cs(2,3) Inr by auto
  qed
qed

lemma ec2_or_sns:
  "length cs = length (filter is_ec2_call cs) + length (filter is_sns_call cs)"
proof (induction cs)
  case Nil
  then show ?case by simp
next
  case (Cons c cs)
  then show ?case by (cases c) simp_all
qed

lemma sample_start_run:
  "snd (lambda_handler sample_loads (steady_provider (PStr ''stopped''))
          (PDict [(''action'', PStr ''START'')]) () []) =
     [DescribeInstances [INSTANCE_ID],
      publish_call (yellow_circle @ '' EC2 - STARTING...''),
      StartInstances [INSTANCE_ID],
      WaiterWait ''instance_running'' [INSTANCE_ID] 10 12,
      publish_call (check_mark @ '' EC2 - STARTED SUCCESS'')]"
proof -
  have a: "extract_action sample_loads (PDict [(''action'', PStr ''START'')]) = Inr ''start''"
    by (simp add: extract_action_def action_from_fields_def action_from_body_def py_or_def
        dict_get_def str_lower_START)
  have "dispatch (steady_provider (PStr ''stopped'')) ''start'' [] =
      (PDict [(''result'', PStr ''started'')],
       [] @ [DescribeInstances [INSTANCE_ID],
             publish_call (yellow_circle @ '' EC2 - STARTING...''),
             StartInstances [INSTANCE_ID],
             WaiterWait ''instance_running'' [INSTANCE_ID] 10 12,
             publish_call (check_mark @ '' EC2 - STARTED SUCCESS'')])"
    by (rule run_start [where resp = "describe_response (PStr ''stopped'')"
          and st = "PStr ''stopped''" and ?r1.0 = "PDict []" and ?r2.0 = "PDict []"])
       (simp_all add: steady_provider_def state_of_describe_response)
  then show ?thesis
    using handler_dispatch [OF a, of "steady_provider (PStr ''stopped'')" "()" "[]"] by simp
qed

text \<open>
  Claim C9, as stated, bounds the outbound calls of an invocation by two, one of them a
  notification. The run of a start on a stopped instance refutes it: it makes five
  calls, two of them notifications.
\<close>

theorem two_calls_counterexample:
  "\<not> length (snd (lambda_handler sample_loads (steady_provider (PStr ''stopped''))
                    (PDict [(''action'', PStr ''START'')]) () [])) \<le> 2
   \<and> \<not> length (filter is_sns_call
                  (snd (lambda_handler sample_loads (steady_provider (PStr ''stopped''))
                          (PDict [(''action'', PStr ''START'')]) () []))) \<le> 1"
  by (simp add: sample_start_run is_sns_publish_call)

text \<open>
  Claim C9, amended. Every invocation makes at most five outbound calls: at most three
  to the compute service (the query of the state, the start or stop command, and the
  wait of the polling helper counted as one call) and at most two publications.
\<close>

theorem outbound_calls_bound:
  "\<exists>cs. snd (lambda_handler loads p event ctx tr) = tr @ cs
      \<and> length (filter is_ec2_call cs) \<le> 3
      \<and> length (filter is_sns_call cs) \<le> 2
      \<and> length cs \<le> 5"
proof (cases "extract_action loads event")
  case (Inl e)
  then have "snd (lambda_handler loads p event ctx tr) = tr @ []"
    by (simp add: lambda_handler_def)
  then show ?thesis
    by (intro exI [of _ "[]"]) simp
next
  case (Inr a)
  then have h: "snd (lambda_handler loads p event ctx tr) = snd (dispatch p a tr)"
    by (simp add: lambda_handler_def case_prod_unfold)
  obtain cs where cs: "snd (dispatch p a tr) = tr @ cs"
    "length (filter is_ec2_call cs) \<le> 3" "length (filter is_sns_call cs) \<le> 2"
    using dispatch_calls [of p a tr] by blast
  have "length cs \<le> 5"
    using cs(2,3) ec2_or_sns [of cs] by simp
  then show ?thesis
    using h cs by auto
qed

section \<open>Failures\<close>

text \<open>
  An exception raised inside the \<^verbatim>\<open>try\<close> statement ends in the error result, after
  one more publication whose outcome does not matter.
\<close>

lemma failure_becomes_error_record:
  assumes "try_body p a tr = (Inl e, tr')"
  shows "dispatch p a tr =
      (PDict [(''result'', PStr ''error''),
              (''error'', PStr (cross_mark @ '' EC2 ERROR: '' @ str_exn e))],
       tr' @ [publish_call (cross_mark @ '' EC2 ERROR: '' @ str_exn e)])"
  using assms
  by (simp add: dispatch_def except_clause_def Let_def case_prod_unfold snd_publish_sms)

lemma describe_failure:
  assumes "a \<noteq> ''test''" and "a \<noteq> ''stop''"
    and "p (tr @ [DescribeInstances [INSTANCE_ID]]) = Inl e"
  shows "try_body p a tr = (Inl e, tr @ [DescribeInstances [INSTANCE_ID]])"
  using assms
  by (simp add: try_body_def start_branch_def status_branch_def invoke_def)

lemma start_command_failure:
  assumes "p (tr @ [DescribeInstances [INSTANCE_ID]]) = Inr resp"
    and "instance_state_name resp = Inr st"
    and "st \<noteq> PStr ''running''"
    and "p (tr @ [DescribeInstances [INSTANCE_ID],
                  publish_call (yellow_circle @ '' EC2 - STARTING...''),
                  StartInstances [INSTANCE_ID]]) = Inl e"
  shows "try_body p ''start'' tr =
      (Inl e, tr @ [DescribeInstances [INSTANCE_ID],
                    publish_call (yellow_circle @ '' EC2 - STARTING...''),
                    StartInstances [INSTANCE_ID]])"
  using assms
  by (simp add: try_body_def start_branch_def invoke_def case_prod_unfold snd_publish_sms)

lemma wait_running_failure:
  assumes "p (tr @ [DescribeInstances [INSTANCE_ID]]) = Inr resp"
    and "instance_state_name resp = Inr st"
    and "st \<noteq> PStr ''running''"
    and "p (tr @ [DescribeInstances [INSTANCE_ID],
                  publish_call (yellow_circle @ '' EC2 - STARTING...''),
                  StartInstances [INSTANCE_ID]]) = Inr r1"
    and "p (tr @ [DescribeInstances [INSTANCE_ID],
                  publish_call (yellow_circle @ '' EC2 - STARTING...''),
                  StartInstances [INSTANCE_ID],
                  WaiterWait ''instance_running'' [INSTANCE_ID] 10 12]) = Inl e"
  shows "try_body p ''start'' tr =
      (Inl e, tr @ [DescribeInstances [INSTANCE_ID],
                    publish_call (yellow_circle @ '' EC2 - STARTING...''),
                    StartInstances [INSTANCE_ID],
                    WaiterWait ''instance_running'' [INSTANCE_ID] 10 12])"
  using assms
  by (simp add: try_body_def start_branch_def invoke_def case_prod_unfold snd_publish_sms)

lemma stop_command_failure:
  assumes "p (tr @ [publish_call (yellow_circle @ '' EC2 - STOPPING...''),
                  StopInstances [INSTANCE_ID]]) = Inl e"
  shows "try_body p ''stop'' tr =
      (Inl e, tr @ [publish_call (yellow_circle @ '' EC2 - STOPPING...''),
                    StopInstances [INSTANCE_ID]])"
  using assms
  by (simp add: try_body_def stop_branch_def invoke_def case_prod_unfold snd_publish_sms)

lemma wait_stopped_failure:
  assumes "p (tr @ [publish_call (yellow_circle @ '' EC2 - STOPPING...''),
                  StopInstances [INSTANCE_ID]]) = Inr r1"
    and "p (tr @ [publish_call (yellow_circle @ '' EC2 - STOPPING...''),
                  StopInstances [INSTANCE_ID],
                  WaiterWait ''instance_stopped'' [INSTANCE_ID] 10 12]) = Inl e"
  shows "try_body p ''stop'' tr =
      (Inl e, tr @ [publish_call (yellow_circle @ '' EC2 - STOPPING...''),
                    StopInstances [INSTANCE_ID],
                    WaiterWait ''instance_stopped'' [INSTANCE_ID] 10 12])"
  using assms
  by (simp add: try_body_def stop_branch_def invoke_def case_prod_unfold snd_publish_sms)

text \<open>
  Claim C1 says that the handler returns a result for every event. The extraction of the
  action stands before the \<^verbatim>\<open>try\<close> statement, and it calls \<^verbatim>\<open>.lower()\<close> on
  whatever true value it found: on the event \<^verbatim>\<open>{"action": 1}\<close> the handler raises
  \<^verbatim>\<open>AttributeError\<close> and returns nothing, before any call to a service, whatever
  the decoder and the services are.
\<close>

theorem numeric_action_escapes:
  "lambda_handler loads p (PDict [(''action'', PInt 1)]) ctx tr =
     (Inl (Raised ''AttributeError''
             ([CHR 0x27] @ ''int'' @ [CHR 0x27] @ '' object has no attribute ''
                @ [CHR 0x27] @ ''lower'' @ [CHR 0x27])),
      tr)"
  by (simp add: lambda_handler_def extract_action_def action_from_fields_def
      action_from_body_def dict_get_def py_or_def no_attribute_def)

lemma query_parameters_escape:
  "lambda_handler loads p (PDict [(''queryStringParameters'', PStr ''a=1'')]) ctx tr =
     (Inl (no_attribute (PStr ''a=1'') ''get''), tr)"
  by (simp add: lambda_handler_def extract_action_def action_from_fields_def
      dict_get_def py_or_def)

end
